theory Spec2Isabelle
  imports Main "HOL-Library.Sublist" "HOL-Library.AList"
begin

section \<open>Plugin catalog, archive extraction and reconciliation (pkg/plugins/utilities.go)\<close>

subsection \<open>Data model\<close>

type_synonym bytes = string

text \<open>
  Modelled from the spec: the declarations of \<open>Release\<close>, \<open>Plugin\<close> and \<open>PluginList\<close>
  are not in utilities.go. The field names \<open>Shortname\<close>, \<open>Releases\<close>, \<open>Version\<close> and
  \<open>Plugins\<close> are the ones utilities.go reads; the per-platform digests of a release
  follow the spec's data model (a mapping from (OS, architecture) to a checksum), kept as
  an association list.
\<close>

record Release =
  Version :: string
  Digests :: "((string \<times> string) \<times> bytes) list"

record Plugin =
  Shortname :: string
  Releases :: "Release list"

record PluginList =
  Plugins :: "Plugin list"

text \<open>The zero value of \<open>var pluginList PluginList\<close>.\<close>

definition emptyPluginList :: PluginList where
  "emptyPluginList = \<lparr>Plugins = []\<rparr>"

text \<open>
  Go \<open>error\<close> values. Errors of collaborators (os, afero, toml, tar, net/http, the
  profile) are opaque values that the functions of utilities.go hand on unchanged; the
  three errors utilities.go builds itself with \<open>fmt.Errorf\<close> carry their arguments.
\<close>

datatype error =
    NotExist
  | OsError string
  | TomlError string
  | TarError string
  | AuthError string
  | NetworkError string
  | IntegrityError
  | UnrecognizedFileType string char
  | MissingManifestOrPlugin
  | PluginNotFound string

text \<open>A run-time panic is not an \<open>error\<close> value: it aborts the call.\<close>

datatype panic = IndexOutOfRange

datatype 'a result = Ok 'a | Err error | Panic panic

text \<open>The manifest file \<open>plugins.toml\<close> in the configuration folder.\<close>

datatype file_state = Missing | Unreadable error | Content bytes

datatype io_event = ReadManifest | GetPluginData string | HttpGet string

record state =
  manifest_file :: file_state
  config_writable :: bool
  installed_plugins :: "string list"
  plugins_writable :: bool
  plugin_files :: "(string \<times> bytes) list"
  io_log :: "io_event list"

text \<open>
  The collaborators of utilities.go that are outside it: the platform
  (\<open>runtime.GOOS\<close>, \<open>runtime.GOARCH\<close>), the constant \<open>stripe.DefaultAPIBaseURL\<close>, the
  TOML decoder and encoder, the profile's API key, \<open>requests.GetPluginData\<close> (of which
  only \<open>PluginBaseURL\<close> is read), the HTTP transport, and the digest function of the
  installer.
\<close>

record env =
  GOOS :: string
  GOARCH :: string
  DefaultAPIBaseURL :: string
  toml_unmarshal :: "bytes \<Rightarrow> PluginList \<Rightarrow> error + PluginList"
  toml_encode :: "PluginList \<Rightarrow> error + bytes"
  get_api_key :: "error + string"
  get_plugin_data :: "string \<Rightarrow> string \<Rightarrow> error + string"
  http_get :: "string \<Rightarrow> error + bytes"
  digest :: "bytes \<Rightarrow> bytes"

subsection \<open>File system and network primitives\<close>

text \<open>\<open>afero.ReadFile(fs, pluginManifestPath)\<close>.\<close>

definition ReadFile :: "state \<Rightarrow> bytes result \<times> state" where
  "ReadFile st =
     (let st1 = st\<lparr>io_log := io_log st @ [ReadManifest]\<rparr>
      in case manifest_file st of
           Missing \<Rightarrow> (Err NotExist, st1)
         | Unreadable e \<Rightarrow> (Err e, st1)
         | Content b \<Rightarrow> (Ok b, st1))"

text \<open>\<open>afero.WriteFile\<close> / \<open>os.WriteFile\<close> on \<open>pluginManifestPath\<close>.\<close>

definition WriteFile :: "bytes \<Rightarrow> state \<Rightarrow> unit result \<times> state" where
  "WriteFile body st =
     (if config_writable st then (Ok (), st\<lparr>manifest_file := Content body\<rparr>)
      else (Err (OsError ''write plugins.toml''), st))"

text \<open>\<open>os.Stat(pluginManifestPath)\<close> returns a nil error.\<close>

definition Stat_ok :: "state \<Rightarrow> bool" where
  "Stat_ok st = (manifest_file st \<noteq> Missing)"

subsection \<open>GetBinaryExtension\<close>

definition GetBinaryExtension :: "env \<Rightarrow> string" where
  "GetBinaryExtension env = (if GOOS env = ''windows'' then ''.exe'' else '''')"

subsection \<open>FetchRemoteResource and RefreshPluginManifest\<close>

definition FetchRemoteResource :: "env \<Rightarrow> string \<Rightarrow> state \<Rightarrow> bytes result \<times> state" where
  "FetchRemoteResource env url st =
     (let st1 = st\<lparr>io_log := io_log st @ [HttpGet url]\<rparr>
      in case http_get env url of
           Inl e \<Rightarrow> (Err e, st1)
         | Inr body \<Rightarrow> (Ok body, st1))"

definition RefreshPluginManifest :: "env \<Rightarrow> string \<Rightarrow> state \<Rightarrow> unit result \<times> state" where
  "RefreshPluginManifest env baseURL st =
     (case get_api_key env of
        Inl e \<Rightarrow> (Err e, st)
      | Inr apiKey \<Rightarrow>
          (let st1 = st\<lparr>io_log := io_log st @ [GetPluginData baseURL]\<rparr>
           in case get_plugin_data env baseURL apiKey of
                Inl e \<Rightarrow> (Err e, st1)
              | Inr pluginBaseURL \<Rightarrow>
                  (let pluginManifestURL = pluginBaseURL @ ''/'' @ ''plugins.toml''
                   in case FetchRemoteResource env pluginManifestURL st1 of
                        (Err e, st2) \<Rightarrow> (Err e, st2)
                      | (Panic p, st2) \<Rightarrow> (Panic p, st2)
                      | (Ok body, st2) \<Rightarrow> WriteFile body st2)))"

subsection \<open>GetPluginList and LookUpPlugin\<close>

definition decode_list :: "env \<Rightarrow> bytes \<Rightarrow> PluginList result" where
  "decode_list env b =
     (case toml_unmarshal env b emptyPluginList of
        Inl e \<Rightarrow> Err e
      | Inr pluginList \<Rightarrow> Ok pluginList)"

text \<open>
  Lines 76 to 85 of \<open>GetPluginList\<close>: the error of the last read is returned,
  otherwise the bytes are decoded.
\<close>

definition decode_read :: "env \<Rightarrow> bytes result \<times> state \<Rightarrow> PluginList result \<times> state" where
  "decode_read env rs =
     (case rs of
        (Err e, st) \<Rightarrow> (Err e, st)
      | (Panic p, st) \<Rightarrow> (Panic p, st)
      | (Ok b, st) \<Rightarrow> (decode_list env b, st))"

definition GetPluginList :: "env \<Rightarrow> state \<Rightarrow> PluginList result \<times> state" where
  "GetPluginList env st =
     (case ReadFile st of
        (r, st1) \<Rightarrow>
          if r = Err NotExist then
            (case RefreshPluginManifest env (DefaultAPIBaseURL env) st1 of
               (Err e, st2) \<Rightarrow> (Err e, st2)
             | (Panic p, st2) \<Rightarrow> (Panic p, st2)
             | (Ok u, st2) \<Rightarrow> decode_read env (ReadFile st2))
          else decode_read env (r, st1))"

text \<open>The \<open>for _, p := range pluginList.Plugins\<close> loop of \<open>LookUpPlugin\<close>.\<close>

fun lookup_loop :: "string \<Rightarrow> Plugin list \<Rightarrow> Plugin result" where
  "lookup_loop pluginName [] = Err (PluginNotFound pluginName)"
| "lookup_loop pluginName (p # ps) =
     (if pluginName = Shortname p then Ok p else lookup_loop pluginName ps)"

definition LookUpPlugin :: "env \<Rightarrow> string \<Rightarrow> state \<Rightarrow> Plugin result \<times> state" where
  "LookUpPlugin env pluginName st =
     (case GetPluginList env st of
        (Err e, st1) \<Rightarrow> (Err e, st1)
      | (Panic p, st1) \<Rightarrow> (Panic p, st1)
      | (Ok pluginList, st1) \<Rightarrow> (lookup_loop pluginName (Plugins pluginList), st1))"

subsection \<open>AddEntryToPluginManifest\<close>

text \<open>
  Lines 140 to 145: the current list stays the zero value when \<open>os.Stat\<close> fails;
  otherwise \<open>toml.DecodeFile\<close> reads and decodes the file.
\<close>

definition load_current :: "env \<Rightarrow> state \<Rightarrow> PluginList result \<times> state" where
  "load_current env st =
     (if Stat_ok st then decode_read env (ReadFile st)
      else (Ok emptyPluginList, st))"

text \<open>
  The loop of lines 147 to 156 over \<open>currentPluginList.Plugins\<close>: at the first plugin
  with the entry's name, \<open>entry.Releases[0]\<close> is appended to its releases and the loop
  breaks. The boolean is \<open>foundPlugin\<close>. Indexing an empty \<open>entry.Releases\<close> panics.
\<close>

fun append_release :: "Plugin \<Rightarrow> Plugin list \<Rightarrow> (bool \<times> Plugin list) result" where
  "append_release entry [] = Ok (False, [])"
| "append_release entry (plugin # rest) =
     (if Shortname plugin = Shortname entry then
        (case Releases entry of
           [] \<Rightarrow> Panic IndexOutOfRange
         | r # _ \<Rightarrow> Ok (True, plugin\<lparr>Releases := Releases plugin @ [r]\<rparr> # rest))
      else
        (case append_release entry rest of
           Ok (foundPlugin, rest') \<Rightarrow> Ok (foundPlugin, plugin # rest')
         | Err e \<Rightarrow> Err e
         | Panic p \<Rightarrow> Panic p))"

text \<open>Lines 147 to 161: the list that is encoded and written.\<close>

definition merge_entry :: "Plugin \<Rightarrow> PluginList \<Rightarrow> PluginList result" where
  "merge_entry entry currentPluginList =
     (case append_release entry (Plugins currentPluginList) of
        Ok (foundPlugin, plugins) \<Rightarrow>
          Ok (currentPluginList\<lparr>Plugins := (if \<not> foundPlugin then plugins @ [entry] else plugins)\<rparr>)
      | Err e \<Rightarrow> Err e
      | Panic p \<Rightarrow> Panic p)"

text \<open>The loop of lines 178 to 183 over \<open>installedList\<close>; the boolean is \<open>isInstalled\<close>.\<close>

fun is_installed_loop :: "string \<Rightarrow> string list \<Rightarrow> bool \<Rightarrow> bool" where
  "is_installed_loop shortname [] isInstalled = isInstalled"
| "is_installed_loop shortname (name # rest) isInstalled =
     is_installed_loop shortname rest (if name = shortname then True else isInstalled)"

text \<open>
  Lines 174 to 191. \<open>config.InitConfig\<close> and \<open>config.GetInstalledPlugins\<close> read the
  installed list; the result of \<open>config.WriteConfigField\<close> is not looked at.
\<close>

definition sync_installed :: "string \<Rightarrow> state \<Rightarrow> state" where
  "sync_installed shortname st =
     (let installedList = installed_plugins st;
          isInstalled = is_installed_loop shortname installedList False;
          installedList' = (if \<not> isInstalled then installedList @ [shortname] else installedList)
      in st\<lparr>installed_plugins := installedList'\<rparr>)"

definition AddEntryToPluginManifest :: "env \<Rightarrow> Plugin \<Rightarrow> state \<Rightarrow> unit result \<times> state" where
  "AddEntryToPluginManifest env entry st =
     (case load_current env st of
        (Err e, st1) \<Rightarrow> (Err e, st1)
      | (Panic p, st1) \<Rightarrow> (Panic p, st1)
      | (Ok currentPluginList, st1) \<Rightarrow>
          (case merge_entry entry currentPluginList of
             Err e \<Rightarrow> (Err e, st1)
           | Panic p \<Rightarrow> (Panic p, st1)
           | Ok newPluginList \<Rightarrow>
               (case toml_encode env newPluginList of
                  Inl e \<Rightarrow> (Err e, st1)
                | Inr buf \<Rightarrow>
                    (case WriteFile buf st1 of
                       (Err e, st2) \<Rightarrow> (Err e, st2)
                     | (Panic p, st2) \<Rightarrow> (Panic p, st2)
                     | (Ok u, st2) \<Rightarrow> (Ok (), sync_installed (Shortname entry) st2)))))"

subsection \<open>The installer\<close>

text \<open>
  Modelled from the spec: \<open>verifychecksumAndSavePlugin\<close> is a method of \<open>Plugin\<close>
  declared outside utilities.go. Following section 4.5 of the spec, it looks up the
  expected digest of the release for the target platform, computes the digest of the
  binary, fails with \<open>IntegrityError\<close> on a mismatch without writing anything, and otherwise
  writes the binary into the plugins directory under the plugin's name with the
  platform's executable suffix, failing with an I/O error when the write fails. The
  release is the first one of the plugin that carries the version passed by the caller;
  a missing release or a missing digest for the platform counts as a mismatch.
\<close>

definition install :: "env \<Rightarrow> string \<Rightarrow> bytes \<Rightarrow> Release \<Rightarrow> state \<Rightarrow> unit result \<times> state" where
  "install env shortname pluginData release st =
     (case map_of (Digests release) (GOOS env, GOARCH env) of
        None \<Rightarrow> (Err IntegrityError, st)
      | Some expected \<Rightarrow>
          if digest env pluginData \<noteq> expected then (Err IntegrityError, st)
          else if \<not> plugins_writable st then (Err (OsError ''write plugin''), st)
          else (Ok (), st\<lparr>plugin_files :=
                  AList.update (shortname @ GetBinaryExtension env) pluginData (plugin_files st)\<rparr>))"

definition verifychecksumAndSavePlugin ::
  "env \<Rightarrow> Plugin \<Rightarrow> bytes \<Rightarrow> string \<Rightarrow> state \<Rightarrow> unit result \<times> state" where
  "verifychecksumAndSavePlugin env plugin pluginData version st =
     (case find (\<lambda>r. Version r = version) (Releases plugin) of
        None \<Rightarrow> (Err IntegrityError, st)
      | Some release \<Rightarrow> install env (Shortname plugin) pluginData release st)"

subsection \<open>extractFromTarball\<close>

text \<open>\<open>tar.TypeReg\<close> and \<open>tar.TypeDir\<close> of the Go standard library.\<close>

definition TypeReg :: char where
  "TypeReg = CHR ''0''"

definition TypeDir :: char where
  "TypeDir = CHR ''5''"

text \<open>
  What \<open>tarReader.Next()\<close> returns: a header (name, type flag; with it the bytes that
  \<open>ioutil.ReadAll(tarReader)\<close> reads for this entry) or an error other than \<open>io.EOF\<close>.
  The end of the list is \<open>io.EOF\<close>.
\<close>

datatype tar_next = Header string char bytes | NextError error

text \<open>\<open>strings.Contains(s, substr)\<close>.\<close>

fun Contains :: "string \<Rightarrow> string \<Rightarrow> bool" where
  "Contains [] substr = (substr = [])"
| "Contains (c # s) substr = (prefix substr (c # s) \<or> Contains s substr)"

text \<open>
  The loop of lines 301 to 331, from the current values of \<open>manifest\<close> and
  \<open>pluginData\<close>. \<open>toml.Unmarshal\<close> decodes into the current value of \<open>manifest\<close>.
\<close>

fun scan_tarball ::
  "env \<Rightarrow> tar_next list \<Rightarrow> PluginList \<times> bytes \<Rightarrow> (PluginList \<times> bytes) result" where
  "scan_tarball env [] (manifest, pluginData) = Ok (manifest, pluginData)"
| "scan_tarball env (NextError e # rest) (manifest, pluginData) = Err e"
| "scan_tarball env (Header name typeflag content # rest) (manifest, pluginData) =
     (if typeflag = TypeDir then scan_tarball env rest (manifest, pluginData)
      else if typeflag = TypeReg then
        (if name = ''manifest.toml'' then
           (case toml_unmarshal env content manifest of
              Inl e \<Rightarrow> Err e
            | Inr manifest' \<Rightarrow> scan_tarball env rest (manifest', pluginData))
         else if Contains name ''stripe-cli-'' then scan_tarball env rest (manifest, content)
         else scan_tarball env rest (manifest, pluginData))
      else Err (UnrecognizedFileType name typeflag))"

text \<open>
  Lines 333 to 350. \<open>plugin.Releases[0].Version\<close> is evaluated after
  \<open>AddEntryToPluginManifest\<close> has returned; indexing an empty list panics.
\<close>

definition update_and_install :: "env \<Rightarrow> PluginList \<Rightarrow> bytes \<Rightarrow> state \<Rightarrow> unit result \<times> state" where
  "update_and_install env manifest pluginData st =
     (if length (Plugins manifest) = 1 \<and> length pluginData > 0 then
        (let plugin = hd (Plugins manifest)
         in case AddEntryToPluginManifest env plugin st of
              (Err e, st1) \<Rightarrow> (Err e, st1)
            | (Panic p, st1) \<Rightarrow> (Panic p, st1)
            | (Ok u, st1) \<Rightarrow>
                (case Releases plugin of
                   [] \<Rightarrow> (Panic IndexOutOfRange, st1)
                 | r # _ \<Rightarrow> verifychecksumAndSavePlugin env plugin pluginData (Version r) st1))
      else (Err MissingManifestOrPlugin, st))"

definition extractFromTarball :: "env \<Rightarrow> tar_next list \<Rightarrow> state \<Rightarrow> unit result \<times> state" where
  "extractFromTarball env tarReader st =
     (case scan_tarball env tarReader (emptyPluginList, []) of
        Err e \<Rightarrow> (Err e, st)
      | Panic p \<Rightarrow> (Panic p, st)
      | Ok (manifest, pluginData) \<Rightarrow> update_and_install env manifest pluginData st)"

subsection \<open>Classification of archive entries\<close>

text \<open>The entries that the scan parses as the fragment, and those it captures as the payload.\<close>

fun is_fragment :: "tar_next \<Rightarrow> bool" where
  "is_fragment (Header name typeflag content) = (typeflag = TypeReg \<and> name = ''manifest.toml'')"
| "is_fragment (NextError e) = False"

fun is_payload :: "tar_next \<Rightarrow> bool" where
  "is_payload (Header name typeflag content) =
     (typeflag = TypeReg \<and> name \<noteq> ''manifest.toml'' \<and> sublist ''stripe-cli-'' name)"
| "is_payload (NextError e) = False"

subsection \<open>A concrete environment\<close>

text \<open>
  A small environment on which the functions above can be evaluated: a Linux platform, a
  decoder and an encoder that know a handful of documents and are inverse to each other
  on them, a remote origin that serves the one-plugin catalog, and a digest function
  that reverses its input.
\<close>

definition release_1_0_0 :: Release where
  "release_1_0_0 = \<lparr>Version = ''1.0.0'', Digests = [((''linux'', ''amd64''), ''cba'')]\<rparr>"

definition release_2_0_0 :: Release where
  "release_2_0_0 = \<lparr>Version = ''2.0.0'', Digests = [((''linux'', ''amd64''), ''fed'')]\<rparr>"

definition hello :: "Release list \<Rightarrow> Plugin" where
  "hello rs = \<lparr>Shortname = ''hello'', Releases = rs\<rparr>"

definition example_documents :: "(bytes \<times> PluginList) list" where
  "example_documents =
     [(''# no plugins'', \<lparr>Plugins = []\<rparr>),
      (''hello'', \<lparr>Plugins = [hello []]\<rparr>),
      (''hello 1.0.0'', \<lparr>Plugins = [hello [release_1_0_0]]\<rparr>),
      (''hello 1.0.0 1.0.0'', \<lparr>Plugins = [hello [release_1_0_0, release_1_0_0]]\<rparr>),
      (''hello 1.0.0 2.0.0'', \<lparr>Plugins = [hello [release_1_0_0, release_2_0_0]]\<rparr>)]"

definition example_unmarshal :: "bytes \<Rightarrow> PluginList \<Rightarrow> error + PluginList" where
  "example_unmarshal b manifest =
     (case map_of example_documents b of
        None \<Rightarrow> Inl (TomlError ''syntax error'')
      | Some pluginList \<Rightarrow> Inr pluginList)"

definition example_encode :: "PluginList \<Rightarrow> error + bytes" where
  "example_encode pluginList =
     (case find (\<lambda>(b, l). l = pluginList) example_documents of
        None \<Rightarrow> Inl (TomlError ''cannot encode'')
      | Some (b, l) \<Rightarrow> Inr b)"

definition example_env :: env where
  "example_env =
     \<lparr>GOOS = ''linux'', GOARCH = ''amd64'', DefaultAPIBaseURL = ''https://api.example/v1'',
      toml_unmarshal = example_unmarshal, toml_encode = example_encode,
      get_api_key = Inr ''sk_test'',
      get_plugin_data = (\<lambda>baseURL apiKey. Inr ''https://plugins.example''),
      http_get = (\<lambda>url. if url = ''https://plugins.example/plugins.toml''
                          then Inr ''hello 1.0.0'' else Inl (NetworkError ''not found'')),
      digest = rev\<rparr>"


definition example_state :: "file_state \<Rightarrow> string list \<Rightarrow> state" where
  "example_state f installed =
     \<lparr>manifest_file = f, config_writable = True, installed_plugins = installed,
      plugins_writable = True, plugin_files = [], io_log = []\<rparr>"

section \<open>Properties\<close>

subsection \<open>Helper lemmas\<close>


lemma Contains_sublist: "Contains s sub = sublist sub s"
  by (induction s) (auto simp: sublist_Cons_right)

lemma append_release_absent:
  "\<forall>q\<in>set ps. Shortname q \<noteq> Shortname entry \<Longrightarrow> append_release entry ps = Ok (False, ps)"
  by (induction ps) auto

lemma append_release_first:
  "\<forall>q\<in>set pre. Shortname q \<noteq> Shortname entry \<Longrightarrow> Shortname e = Shortname entry \<Longrightarrow>
   Releases entry = r # rs \<Longrightarrow>
   append_release entry (pre @ e # post) = Ok (True, pre @ e\<lparr>Releases := Releases e @ [r]\<rparr> # post)"
  by (induction pre) auto

lemma lookup_loop_first:
  "\<forall>q\<in>set pre. Shortname q \<noteq> n \<Longrightarrow> Shortname p = n \<Longrightarrow> lookup_loop n (pre @ p # post) = Ok p"
  by (induction pre) auto

lemma lookup_loop_absent:
  "\<forall>q\<in>set ps. Shortname q \<noteq> n \<Longrightarrow> lookup_loop n ps = Err (PluginNotFound n)"
  by (induction ps) auto

lemmas example_defs =
  example_env_def example_state_def example_unmarshal_def example_encode_def
  example_documents_def hello_def release_1_0_0_def release_2_0_0_def emptyPluginList_def

lemmas io_defs = ReadFile_def WriteFile_def Stat_ok_def decode_read_def decode_list_def
  FetchRemoteResource_def RefreshPluginManifest_def GetPluginList_def

lemma example_load:
  "GetPluginList example_env (example_state (Content ''hello 1.0.0 2.0.0'') []) =
     (Ok \<lparr>Plugins = [hello [release_1_0_0, release_2_0_0]]\<rparr>,
      (example_state (Content ''hello 1.0.0 2.0.0'') [])\<lparr>io_log := [ReadManifest]\<rparr>)"
  by (simp add: io_defs example_defs)

subsection \<open>Lookup by name\<close>

text \<open>
  Claim C10. \<open>LookUpPlugin\<close> scans the plugins of the loaded catalog in order: it returns
  the first plugin whose \<open>Shortname\<close> equals the queried name (the one with no match
  before it), and when no plugin matches it fails with the not-found error that carries
  the queried name.
\<close>

theorem LookUpPlugin_first_match:
  assumes "GetPluginList env st = (Ok pluginList, st')"
  shows "(\<forall>pre p post.
            Plugins pluginList = pre @ p # post \<and> Shortname p = pluginName \<and>
            (\<forall>q\<in>set pre. Shortname q \<noteq> pluginName) \<longrightarrow>
            LookUpPlugin env pluginName st = (Ok p, st')) \<and>
         ((\<forall>q\<in>set (Plugins pluginList). Shortname q \<noteq> pluginName) \<longrightarrow>
            LookUpPlugin env pluginName st = (Err (PluginNotFound pluginName), st'))"
  using assms by (simp add: LookUpPlugin_def lookup_loop_first lookup_loop_absent)

theorem LookUpPlugin_first_match_witness:
  "LookUpPlugin example_env ''hello'' (example_state (Content ''hello 1.0.0 2.0.0'') []) =
     (Ok (hello [release_1_0_0, release_2_0_0]),
      (example_state (Content ''hello 1.0.0 2.0.0'') [])\<lparr>io_log := [ReadManifest]\<rparr>) \<and>
   LookUpPlugin example_env ''goodbye'' (example_state (Content ''hello 1.0.0 2.0.0'') []) =
     (Err (PluginNotFound ''goodbye''),
      (example_state (Content ''hello 1.0.0 2.0.0'') [])\<lparr>io_log := [ReadManifest]\<rparr>)"
proof -
  note t = LookUpPlugin_first_match [OF example_load]
  have a: "LookUpPlugin example_env ''hello'' (example_state (Content ''hello 1.0.0 2.0.0'') []) =
     (Ok (hello [release_1_0_0, release_2_0_0]),
      (example_state (Content ''hello 1.0.0 2.0.0'') [])\<lparr>io_log := [ReadManifest]\<rparr>)"
    using t [of "''hello''", THEN conjunct1, rule_format, of "[]" "hello [release_1_0_0, release_2_0_0]" "[]"]
    by (simp add: hello_def)
  have b: "LookUpPlugin example_env ''goodbye'' (example_state (Content ''hello 1.0.0 2.0.0'') []) =
     (Err (PluginNotFound ''goodbye''),
      (example_state (Content ''hello 1.0.0 2.0.0'') [])\<lparr>io_log := [ReadManifest]\<rparr>)"
    using t [of "''goodbye''", THEN conjunct2]
    by (simp add: hello_def)
  from a b show ?thesis by simp
qed

subsection \<open>Reconciliation\<close>

lemma merge_entry_first:
  assumes "Plugins C = pre @ e # post" "\<forall>q\<in>set pre. Shortname q \<noteq> Shortname entry"
    "Shortname e = Shortname entry" "Releases entry = r # rs"
  shows "merge_entry entry C = Ok (C\<lparr>Plugins := pre @ e\<lparr>Releases := Releases e @ [r]\<rparr> # post\<rparr>)"
  using assms by (simp add: merge_entry_def append_release_first)

lemma merge_entry_absent:
  assumes "\<forall>q\<in>set (Plugins C). Shortname q \<noteq> Shortname entry"
  shows "merge_entry entry C = Ok (C\<lparr>Plugins := Plugins C @ [entry]\<rparr>)"
  using assms by (simp add: merge_entry_def append_release_absent)

lemma load_current_Content:
  "manifest_file st = Content b \<Longrightarrow> toml_unmarshal env b emptyPluginList = Inr C \<Longrightarrow>
   load_current env st = (Ok C, st\<lparr>io_log := io_log st @ [ReadManifest]\<rparr>)"
  by (simp add: load_current_def io_defs)

lemma load_current_Missing:
  "manifest_file st = Missing \<Longrightarrow> load_current env st = (Ok emptyPluginList, st)"
  by (simp add: load_current_def io_defs)


lemma sync_installed_fields [simp]:
  "manifest_file (sync_installed n st) = manifest_file st"
  "plugin_files (sync_installed n st) = plugin_files st"
  "io_log (sync_installed n st) = io_log st"
  "config_writable (sync_installed n st) = config_writable st"
  "plugins_writable (sync_installed n st) = plugins_writable st"
  by (simp_all add: sync_installed_def Let_def)

lemma AddEntry_after_load:
  assumes "load_current env st = (Ok C, st1)" "merge_entry entry C = Ok C'"
    "toml_encode env C' = Inr buf" "config_writable st1"
  shows "AddEntryToPluginManifest env entry st =
           (Ok (), sync_installed (Shortname entry) (st1\<lparr>manifest_file := Content buf\<rparr>))"
  using assms by (simp add: AddEntryToPluginManifest_def WriteFile_def)





text \<open>
  Claim C3. When the stored catalog \<open>C\<close> contains a plugin \<open>e\<close> with the entry's name
  (the first such plugin, \<open>pre\<close> being the plugins before it), reconciling an entry whose
  first release is \<open>r'\<close> yields the catalog in which the releases of \<open>e\<close> are the old
  releases followed by \<open>r'\<close>, with every other plugin, and every other field of \<open>e\<close>,
  unchanged and in the same order; this catalog is what is encoded and written to the
  manifest file.
\<close>

theorem AddEntry_appends_release:
  assumes "manifest_file st = Content b"
    and "toml_unmarshal env b emptyPluginList = Inr C"
    and "Plugins C = pre @ e # post"
    and "\<forall>q\<in>set pre. Shortname q \<noteq> Shortname entry"
    and "Shortname e = Shortname entry"
    and "Releases entry = r' # rs"
    and "toml_encode env (C\<lparr>Plugins := pre @ e\<lparr>Releases := Releases e @ [r']\<rparr> # post\<rparr>) = Inr buf"
    and "config_writable st"
  shows "merge_entry entry C = Ok (C\<lparr>Plugins := pre @ e\<lparr>Releases := Releases e @ [r']\<rparr> # post\<rparr>) \<and>
         fst (AddEntryToPluginManifest env entry st) = Ok () \<and>
         manifest_file (snd (AddEntryToPluginManifest env entry st)) = Content buf"
proof -
  let ?C' = "C\<lparr>Plugins := pre @ e\<lparr>Releases := Releases e @ [r']\<rparr> # post\<rparr>"
  have m: "merge_entry entry C = Ok ?C'"
    using assms(3-6) by (rule merge_entry_first)
  have l: "load_current env st = (Ok C, st\<lparr>io_log := io_log st @ [ReadManifest]\<rparr>)"
    using assms(1,2) by (rule load_current_Content)
  have "AddEntryToPluginManifest env entry st =
          (Ok (), sync_installed (Shortname entry)
                    (st\<lparr>io_log := io_log st @ [ReadManifest], manifest_file := Content buf\<rparr>))"
    using AddEntry_after_load [OF l m assms(7)] assms(8) by simp
  with m show ?thesis by simp
qed

theorem AddEntry_appends_release_witness:
  "merge_entry (hello [release_2_0_0]) \<lparr>Plugins = [hello [release_1_0_0]]\<rparr> =
     Ok \<lparr>Plugins = [hello [release_1_0_0, release_2_0_0]]\<rparr> \<and>
   fst (AddEntryToPluginManifest example_env (hello [release_2_0_0])
          (example_state (Content ''hello 1.0.0'') [''hello''])) = Ok () \<and>
   manifest_file (snd (AddEntryToPluginManifest example_env (hello [release_2_0_0])
          (example_state (Content ''hello 1.0.0'') [''hello'']))) = Content ''hello 1.0.0 2.0.0''"
  using AddEntry_appends_release [of "example_state (Content ''hello 1.0.0'') [''hello'']"
      "''hello 1.0.0''" example_env "\<lparr>Plugins = [hello [release_1_0_0]]\<rparr>" "[]"
      "hello [release_1_0_0]" "[]" "hello [release_2_0_0]" release_2_0_0 "[]" "''hello 1.0.0 2.0.0''"]
  by (simp add: example_defs)

text \<open>
  Claim C4. When no plugin of the stored catalog \<open>C\<close> has the entry's name, reconciling
  an entry that carries the one release \<open>r\<close> yields \<open>C\<close> followed by one new plugin with
  exactly that release, and this catalog is what is encoded and written. A manifest file
  that does not exist yet is read as the empty catalog, not as a failure.
\<close>

theorem AddEntry_new_extension:
  assumes "(manifest_file st = Missing \<and> C = emptyPluginList) \<or>
           (\<exists>b. manifest_file st = Content b \<and> toml_unmarshal env b emptyPluginList = Inr C)"
    and "\<forall>q\<in>set (Plugins C). Shortname q \<noteq> Shortname entry"
    and "Releases entry = [r]"
    and "toml_encode env (C\<lparr>Plugins := Plugins C @ [entry]\<rparr>) = Inr buf"
    and "config_writable st"
  shows "merge_entry entry C =
           Ok (C\<lparr>Plugins := Plugins C @ [\<lparr>Shortname = Shortname entry, Releases = [r]\<rparr>]\<rparr>) \<and>
         fst (AddEntryToPluginManifest env entry st) = Ok () \<and>
         manifest_file (snd (AddEntryToPluginManifest env entry st)) = Content buf"
proof -
  have e: "entry = \<lparr>Shortname = Shortname entry, Releases = [r]\<rparr>"
    using assms(3) by (cases entry) simp
  have m: "merge_entry entry C = Ok (C\<lparr>Plugins := Plugins C @ [entry]\<rparr>)"
    using assms(2) by (rule merge_entry_absent)
  obtain st1 where l: "load_current env st = (Ok C, st1)" and w: "config_writable st1"
    using assms(1,5) by (auto simp: load_current_Missing load_current_Content)
  have "AddEntryToPluginManifest env entry st =
          (Ok (), sync_installed (Shortname entry) (st1\<lparr>manifest_file := Content buf\<rparr>))"
    using AddEntry_after_load [OF l m assms(4) w] .
  with m e show ?thesis by simp
qed

theorem AddEntry_new_extension_witness:
  "merge_entry (hello [release_1_0_0]) emptyPluginList =
     Ok \<lparr>Plugins = [\<lparr>Shortname = ''hello'', Releases = [release_1_0_0]\<rparr>]\<rparr> \<and>
   fst (AddEntryToPluginManifest example_env (hello [release_1_0_0]) (example_state Missing [])) = Ok () \<and>
   manifest_file (snd (AddEntryToPluginManifest example_env (hello [release_1_0_0])
      (example_state Missing []))) = Content ''hello 1.0.0''"
  using AddEntry_new_extension [of "example_state Missing []" emptyPluginList example_env
      "hello [release_1_0_0]" release_1_0_0 "''hello 1.0.0''"]
  by (simp add: example_defs)



subsection \<open>Loading the catalog\<close>




subsection \<open>Scanning the archive\<close>

lemma Contains_iff: "Contains name sub = (\<exists>pre post. name = pre @ sub @ post)"
  unfolding Contains_sublist sublist_def ..




lemma scan_tarball_no_fragment:
  "\<forall>h\<in>set xs. \<not> is_fragment h \<Longrightarrow> scan_tarball env xs (manifest, pluginData) = Ok (manifest', pluginData')
   \<Longrightarrow> manifest' = manifest"
  by (induction env xs "(manifest, pluginData)" arbitrary: pluginData rule: scan_tarball.induct)
     (auto split: if_splits)

lemma scan_tarball_no_payload:
  "\<forall>h\<in>set xs. \<not> is_payload h \<Longrightarrow> scan_tarball env xs (manifest, pluginData) = Ok (manifest', pluginData')
   \<Longrightarrow> pluginData' = pluginData"
  by (induction env xs "(manifest, pluginData)" arbitrary: manifest rule: scan_tarball.induct)
     (auto simp: Contains_sublist split: if_splits sum.splits)






text \<open>
  Claim C5. Every entry that the scan meets is handled by its type and name: a directory
  is skipped; a regular file named exactly \<open>manifest.toml\<close> is decoded into the manifest
  (a decoding error ends the scan); another regular file whose name contains
  \<open>stripe-cli-\<close> replaces the captured payload with its bytes; any other regular file
  changes nothing; an entry of any other type ends the scan, and the extraction, with
  \<open>UnrecognizedFileType\<close> carrying the entry's name and type flag.
\<close>

theorem scan_tarball_entry:
  "(typeflag = TypeDir \<longrightarrow>
      scan_tarball env (Header name typeflag content # rest) (manifest, pluginData) =
      scan_tarball env rest (manifest, pluginData)) \<and>
   (typeflag = TypeReg \<and> name = ''manifest.toml'' \<longrightarrow>
      scan_tarball env (Header name typeflag content # rest) (manifest, pluginData) =
      (case toml_unmarshal env content manifest of
         Inl e \<Rightarrow> Err e
       | Inr manifest' \<Rightarrow> scan_tarball env rest (manifest', pluginData))) \<and>
   (typeflag = TypeReg \<and> (\<exists>pre post. name = pre @ ''stripe-cli-'' @ post) \<longrightarrow>
      scan_tarball env (Header name typeflag content # rest) (manifest, pluginData) =
      scan_tarball env rest (manifest, content)) \<and>
   (typeflag = TypeReg \<and> name \<noteq> ''manifest.toml'' \<and> \<not> (\<exists>pre post. name = pre @ ''stripe-cli-'' @ post) \<longrightarrow>
      scan_tarball env (Header name typeflag content # rest) (manifest, pluginData) =
      scan_tarball env rest (manifest, pluginData)) \<and>
   (typeflag \<noteq> TypeDir \<and> typeflag \<noteq> TypeReg \<longrightarrow>
      scan_tarball env (Header name typeflag content # rest) (manifest, pluginData) =
      Err (UnrecognizedFileType name typeflag) \<and>
      extractFromTarball env (Header name typeflag content # rest) st =
      (Err (UnrecognizedFileType name typeflag), st))"
proof -
  have "\<not> Contains ''manifest.toml'' ''stripe-cli-''"
    by simp
  then have m: "name = ''manifest.toml'' \<Longrightarrow> \<not> (\<exists>pre post. name = pre @ ''stripe-cli-'' @ post)"
    unfolding Contains_iff by simp
  show ?thesis
    unfolding scan_tarball.simps Contains_iff extractFromTarball_def
    using m by (auto simp: TypeDir_def TypeReg_def)
qed

theorem scan_tarball_entry_witness:
  "scan_tarball example_env [Header ''pkg/'' TypeDir ''''] (emptyPluginList, []) = Ok (emptyPluginList, []) \<and>
   scan_tarball example_env [Header ''manifest.toml'' TypeReg ''hello 1.0.0''] (emptyPluginList, []) =
     Ok (\<lparr>Plugins = [hello [release_1_0_0]]\<rparr>, []) \<and>
   scan_tarball example_env [Header ''stripe-cli-hello'' TypeReg ''abc''] (emptyPluginList, []) =
     Ok (emptyPluginList, ''abc'') \<and>
   scan_tarball example_env [Header ''README.md'' TypeReg ''read me''] (emptyPluginList, []) =
     Ok (emptyPluginList, []) \<and>
   extractFromTarball example_env [Header ''link'' (CHR ''2'') ''''] (example_state Missing []) =
     (Err (UnrecognizedFileType ''link'' (CHR ''2'')), example_state Missing [])"
proof -
  note t = scan_tarball_entry [where env = example_env and rest = "[]"
      and manifest = emptyPluginList and pluginData = "[]"]
  have a: "scan_tarball example_env [Header ''pkg/'' TypeDir ''''] (emptyPluginList, []) =
      Ok (emptyPluginList, [])"
    using t [where typeflag = TypeDir and name = "''pkg/''" and content = "''''", THEN conjunct1]
    by simp
  have b: "scan_tarball example_env [Header ''manifest.toml'' TypeReg ''hello 1.0.0''] (emptyPluginList, []) =
      Ok (\<lparr>Plugins = [hello [release_1_0_0]]\<rparr>, [])"
    using t [where typeflag = TypeReg and name = "''manifest.toml''" and content = "''hello 1.0.0''",
        THEN conjunct2, THEN conjunct1]
    by (simp add: example_defs)
  have "''stripe-cli-hello'' = [] @ ''stripe-cli-'' @ ''hello''"
    by simp
  then have ex: "\<exists>pre post. ''stripe-cli-hello'' = pre @ ''stripe-cli-'' @ post"
    by blast
  have c: "scan_tarball example_env [Header ''stripe-cli-hello'' TypeReg ''abc''] (emptyPluginList, []) =
      Ok (emptyPluginList, ''abc'')"
    using t [where typeflag = TypeReg and name = "''stripe-cli-hello''" and content = "''abc''",
        THEN conjunct2, THEN conjunct2, THEN conjunct1] ex
    by simp
  have "\<not> Contains ''README.md'' ''stripe-cli-''"
    by simp
  then have nex: "\<not> (\<exists>pre post. ''README.md'' = pre @ ''stripe-cli-'' @ post)"
    unfolding Contains_iff .
  have d: "scan_tarball example_env [Header ''README.md'' TypeReg ''read me''] (emptyPluginList, []) =
      Ok (emptyPluginList, [])"
    using t [where typeflag = TypeReg and name = "''README.md''" and content = "''read me''",
        THEN conjunct2, THEN conjunct2, THEN conjunct2, THEN conjunct1] nex
    by simp
  have e: "extractFromTarball example_env [Header ''link'' (CHR ''2'') ''''] (example_state Missing []) =
     (Err (UnrecognizedFileType ''link'' (CHR ''2'')), example_state Missing [])"
    using t [where typeflag = "CHR ''2''" and name = "''link''" and content = "''''"
        and st = "example_state Missing []",
        THEN conjunct2, THEN conjunct2, THEN conjunct2, THEN conjunct2]
    by (simp add: TypeReg_def TypeDir_def)
  from a b c d e show ?thesis by simp
qed

subsection \<open>Acceptance of the scanned archive\<close>

lemma update_and_install_rejects:
  "\<not> (length (Plugins manifest) = 1 \<and> pluginData \<noteq> []) \<Longrightarrow>
   update_and_install env manifest pluginData st = (Err MissingManifestOrPlugin, st)"
  by (auto simp: update_and_install_def)

lemma update_and_install_Ok:
  "fst (update_and_install env manifest pluginData st) = Ok u \<Longrightarrow>
   length (Plugins manifest) = 1 \<and> pluginData \<noteq> []"
  by (auto simp: update_and_install_def split: if_splits)

lemmas extract_defs = extractFromTarball_def update_and_install_def AddEntryToPluginManifest_def
  load_current_def merge_entry_def sync_installed_def verifychecksumAndSavePlugin_def install_def
  GetBinaryExtension_def TypeReg_def TypeDir_def

text \<open>
  Claim C1 (as amended). Extraction succeeds only if the scan ends with a manifest that
  holds exactly one plugin and with a non-empty payload. When the scan ends without an
  error and the manifest does not hold exactly one plugin, or the payload is empty, or the
  archive has no fragment entry, or it has no payload entry, extraction fails with
  \<open>MissingManifestOrPlugin\<close> and changes nothing. The number of fragment entries and the
  number of releases of the plugin are not part of the check.
\<close>

theorem extractFromTarball_acceptance:
  "(fst (extractFromTarball env tarReader st) = Ok () \<longrightarrow>
      (\<exists>manifest pluginData.
         scan_tarball env tarReader (emptyPluginList, []) = Ok (manifest, pluginData) \<and>
         length (Plugins manifest) = 1 \<and> pluginData \<noteq> [])) \<and>
   (\<forall>manifest pluginData.
      scan_tarball env tarReader (emptyPluginList, []) = Ok (manifest, pluginData) \<and>
      (length (Plugins manifest) \<noteq> 1 \<or> pluginData = [] \<or>
       (\<forall>h\<in>set tarReader. \<not> is_fragment h) \<or> (\<forall>h\<in>set tarReader. \<not> is_payload h)) \<longrightarrow>
      extractFromTarball env tarReader st = (Err MissingManifestOrPlugin, st))"
proof (intro conjI allI impI)
  assume ok: "fst (extractFromTarball env tarReader st) = Ok ()"
  show "\<exists>manifest pluginData.
         scan_tarball env tarReader (emptyPluginList, []) = Ok (manifest, pluginData) \<and>
         length (Plugins manifest) = 1 \<and> pluginData \<noteq> []"
  proof (cases "scan_tarball env tarReader (emptyPluginList, [])")
    case (Ok acc)
    obtain manifest pluginData where acc: "acc = (manifest, pluginData)"
      by (cases acc)
    from ok Ok acc have "fst (update_and_install env manifest pluginData st) = Ok ()"
      by (simp add: extractFromTarball_def)
    then have "length (Plugins manifest) = 1 \<and> pluginData \<noteq> []"
      by (rule update_and_install_Ok)
    with Ok acc show ?thesis by simp
  next
    case (Err e)
    with ok show ?thesis by (simp add: extractFromTarball_def)
  next
    case (Panic p)
    with ok show ?thesis by (simp add: extractFromTarball_def)
  qed
next
  fix manifest pluginData
  assume h: "scan_tarball env tarReader (emptyPluginList, []) = Ok (manifest, pluginData) \<and>
      (length (Plugins manifest) \<noteq> 1 \<or> pluginData = [] \<or>
       (\<forall>h\<in>set tarReader. \<not> is_fragment h) \<or> (\<forall>h\<in>set tarReader. \<not> is_payload h))"
  then have s: "scan_tarball env tarReader (emptyPluginList, []) = Ok (manifest, pluginData)"
    by simp
  have "\<not> (length (Plugins manifest) = 1 \<and> pluginData \<noteq> [])"
  proof -
    have "manifest = emptyPluginList" if "\<forall>h\<in>set tarReader. \<not> is_fragment h"
      using scan_tarball_no_fragment [OF that s] .
    moreover have "pluginData = []" if "\<forall>h\<in>set tarReader. \<not> is_payload h"
      using scan_tarball_no_payload [OF that s] .
    ultimately show ?thesis
      using h by (auto simp: emptyPluginList_def)
  qed
  then show "extractFromTarball env tarReader st = (Err MissingManifestOrPlugin, st)"
    using s by (simp add: extractFromTarball_def update_and_install_rejects)
qed

theorem extractFromTarball_acceptance_witness:
  "extractFromTarball example_env
     [Header ''pkg/'' TypeDir '''', Header ''stripe-cli-hello'' TypeReg ''abc'']
     (example_state Missing []) = (Err MissingManifestOrPlugin, example_state Missing [])"
proof -
  have s: "scan_tarball example_env
     [Header ''pkg/'' TypeDir '''', Header ''stripe-cli-hello'' TypeReg ''abc'']
     (emptyPluginList, []) = Ok (emptyPluginList, ''abc'')"
    by (simp add: TypeReg_def TypeDir_def)
  have f: "\<forall>h\<in>set [Header ''pkg/'' TypeDir '''', Header ''stripe-cli-hello'' TypeReg ''abc'']. \<not> is_fragment h"
    by (simp add: TypeReg_def TypeDir_def)
  show ?thesis
    using extractFromTarball_acceptance [where env = example_env and st = "example_state Missing []"
        and tarReader = "[Header ''pkg/'' TypeDir '''', Header ''stripe-cli-hello'' TypeReg ''abc'']",
        THEN conjunct2, rule_format, of emptyPluginList "''abc''"] s f
    by blast
qed

text \<open>
  The claim as stated fails: a fragment whose one plugin carries two releases is
  accepted, reconciled and installed.
\<close>

theorem extractFromTarball_acceptance_counterexample:
  "extractFromTarball example_env
     [Header ''manifest.toml'' TypeReg ''hello 1.0.0 2.0.0'', Header ''stripe-cli-hello'' TypeReg ''abc'']
     (example_state Missing []) =
   (Ok (), \<lparr>manifest_file = Content ''hello 1.0.0 2.0.0'', config_writable = True,
            installed_plugins = [''hello''], plugins_writable = True,
            plugin_files = [(''hello'', ''abc'')], io_log = []\<rparr>) \<and>
   example_unmarshal ''hello 1.0.0 2.0.0'' emptyPluginList =
     Inr \<lparr>Plugins = [\<lparr>Shortname = ''hello'', Releases = [release_1_0_0, release_2_0_0]\<rparr>]\<rparr>"
  by (simp add: extract_defs io_defs example_defs)

text \<open>
  Claim C8 (fails on the code). A fragment whose one plugin has an empty release list
  passes the check of line 334 when the payload is non-empty, and \<open>Releases[0]\<close> is then
  read out of range: at line 342, after the manifest and the installed index have been
  written, when the catalog does not know the plugin; at line 153 when it does.
\<close>

theorem extractFromTarball_panic:
  "extractFromTarball example_env
     [Header ''manifest.toml'' TypeReg ''hello'', Header ''stripe-cli-hello'' TypeReg ''abc'']
     (example_state Missing []) =
   (Panic IndexOutOfRange,
    \<lparr>manifest_file = Content ''hello'', config_writable = True,
     installed_plugins = [''hello''], plugins_writable = True,
     plugin_files = [], io_log = []\<rparr>) \<and>
   extractFromTarball example_env
     [Header ''manifest.toml'' TypeReg ''hello'', Header ''stripe-cli-hello'' TypeReg ''abc'']
     (example_state (Content ''hello 1.0.0'') []) =
   (Panic IndexOutOfRange,
    \<lparr>manifest_file = Content ''hello 1.0.0'', config_writable = True,
     installed_plugins = [], plugins_writable = True,
     plugin_files = [], io_log = [ReadManifest]\<rparr>) \<and>
   example_unmarshal ''hello'' emptyPluginList =
     Inr \<lparr>Plugins = [\<lparr>Shortname = ''hello'', Releases = []\<rparr>]\<rparr>"
  by (simp add: extract_defs io_defs example_defs)

subsection \<open>Failing runs\<close>








end
